theory Spec2Isabelle
  imports Main "HOL-Library.AList"
begin

section \<open>Values, errors and the outside world\<close>

text \<open>
  The deposition record handled by \<open>deposit.py\<close> is whatever \<open>response.json()\<close> returns:
  a Python value built from dicts, lists, strings, numbers, booleans and \<open>None\<close>. A dict
  is an association list read with \<open>map_of\<close>. JSON numbers are kept as integers.
\<close>

datatype json =
    JNull
  | JBool bool
  | JNum int
  | JStr string
  | JArr "json list"
  | JObj "(string \<times> json) list"

text \<open>
  Every \<open>raise\<close> of the source and every exception of the Python operations it uses is a
  value. \<open>ValueError\<close> carries the template of its f-string and the values put into it.
\<close>

datatype error =
    KeyError string
  | TypeError
  | AttributeError
  | ValueError string "json list"
  | HTTPStatusError nat
  | TransportError
  | JSONDecodeError
  | OSError

text \<open>\<open>obj[key]\<close> with a string key: only a dict can be subscripted that way.\<close>

fun subscript :: "json \<Rightarrow> string \<Rightarrow> error + json" where
  "subscript (JObj kvs) k = (case map_of kvs k of None \<Rightarrow> Inl (KeyError k) | Some v \<Rightarrow> Inr v)"
| "subscript _ k = Inl TypeError"

text \<open>\<open>obj.get(key)\<close>: a dict method, with \<open>None\<close> for a key that is not there.\<close>

fun dict_get :: "json \<Rightarrow> string \<Rightarrow> error + json" where
  "dict_get (JObj kvs) k = Inr (case map_of kvs k of None \<Rightarrow> JNull | Some v \<Rightarrow> v)"
| "dict_get _ k = Inl AttributeError"

text \<open>Python's truth value of an object, as \<open>or\<close> and \<open>if\<close> test it.\<close>

fun truthy :: "json \<Rightarrow> bool" where
  "truthy JNull = False"
| "truthy (JBool b) = b"
| "truthy (JNum n) = (n \<noteq> 0)"
| "truthy (JStr s) = (s \<noteq> [])"
| "truthy (JArr xs) = (xs \<noteq> [])"
| "truthy (JObj kvs) = (kvs \<noteq> [])"

text \<open>
  A \<open>pathlib.Path\<close> is the list of its parts; \<open>path.name\<close> is the last part, the empty
  string when there is none.
\<close>

type_synonym path = "string list"

definition path_name :: "path \<Rightarrow> string" where
  "path_name p = (if p = [] then [] else last p)"

subsection \<open>Value objects and their serialisation\<close>

text \<open>
  The pydantic models. Beside its field values an instance remembers which fields the
  caller passed to the constructor (pydantic's \<open>model_fields_set\<close>). \<open>Person\<close> declares no
  default, so all three fields are always passed; \<open>DepositionMetadata\<close> declares the
  defaults \<open>doi = None\<close> and \<open>prereserve_doi = False\<close>.
\<close>

record Person =
  name :: string
  affiliation :: "string option"
  orcid :: "string option"
  person_fields_set :: "string list"

record DepositionMetadata =
  upload_type :: string
  title :: string
  description :: string
  creators :: "Person list"
  access_right :: string
  license :: string
  version :: string
  doi :: "string option"
  prereserve_doi :: bool
  metadata_fields_set :: "string list"

record Deposition =
  metadata :: DepositionMetadata

definition new_Person :: "string \<Rightarrow> string option \<Rightarrow> string option \<Rightarrow> Person" where
  "new_Person n a oid =
     \<lparr>name = n, affiliation = a, orcid = oid,
      person_fields_set = [''name'', ''affiliation'', ''orcid'']\<rparr>"

text \<open>
  The two defaulted keyword arguments are optional: \<open>None\<close> stands for an argument
  that was not passed, \<open>Some v\<close> for one passed with value \<open>v\<close>.
\<close>

definition new_DepositionMetadata ::
  "string \<Rightarrow> string \<Rightarrow> string \<Rightarrow> Person list \<Rightarrow> string \<Rightarrow> string \<Rightarrow> string \<Rightarrow>
   string option option \<Rightarrow> bool option \<Rightarrow> DepositionMetadata" where
  "new_DepositionMetadata ut ti de cr ar li ve doi_arg pre_arg =
     \<lparr>upload_type = ut, title = ti, description = de, creators = cr, access_right = ar,
      license = li, version = ve,
      doi = (case doi_arg of None \<Rightarrow> None | Some d \<Rightarrow> d),
      prereserve_doi = (case pre_arg of None \<Rightarrow> False | Some b \<Rightarrow> b),
      metadata_fields_set =
        [''upload_type'', ''title'', ''description'', ''creators'', ''access_right'',
         ''license'', ''version'']
        @ (case doi_arg of None \<Rightarrow> [] | Some _ \<Rightarrow> [''doi''])
        @ (case pre_arg of None \<Rightarrow> [] | Some _ \<Rightarrow> [''prereserve_doi''])\<rparr>"

definition opt_str :: "string option \<Rightarrow> json" where
  "opt_str s = (case s of None \<Rightarrow> JNull | Some v \<Rightarrow> JStr v)"

text \<open>
  \<open>model.model_dump_json(exclude_none=True)\<close>, the call in \<open>Client._request\<close>. The method
  belongs to pydantic: it writes every declared field in declaration order, nested
  models likewise, and with \<open>exclude_none\<close> leaves out the fields whose value is \<open>None\<close>.
  It does not consult \<open>model_fields_set\<close> (that is what \<open>exclude_unset\<close> would do). The
  serialised text is represented by the JSON value it denotes.
\<close>

definition exclude_none :: "(string \<times> json) list \<Rightarrow> (string \<times> json) list" where
  "exclude_none kvs = filter (\<lambda>kv. snd kv \<noteq> JNull) kvs"

definition dump_Person :: "Person \<Rightarrow> json" where
  "dump_Person p =
     JObj (exclude_none
       [(''name'', JStr (name p)),
        (''affiliation'', opt_str (affiliation p)),
        (''orcid'', opt_str (orcid p))])"

definition dump_DepositionMetadata :: "DepositionMetadata \<Rightarrow> json" where
  "dump_DepositionMetadata m =
     JObj (exclude_none
       [(''upload_type'', JStr (upload_type m)),
        (''title'', JStr (title m)),
        (''description'', JStr (description m)),
        (''creators'', JArr (map dump_Person (creators m))),
        (''access_right'', JStr (access_right m)),
        (''license'', JStr (license m)),
        (''version'', JStr (version m)),
        (''doi'', opt_str (doi m)),
        (''prereserve_doi'', JBool (prereserve_doi m))])"

definition model_dump_json :: "Deposition \<Rightarrow> json" where
  "model_dump_json d =
     JObj (exclude_none [(''metadata'', dump_DepositionMetadata (metadata d))])"

subsection \<open>Requests, responses, the session and the log\<close>

text \<open>
  The endpoint strings of the source are f-strings over a deposition id or a bucket link;
  they are kept as the pattern and the values put into it.
\<close>

datatype endpoint =
    Depositions
  | Deposition_Item json
  | Deposition_Publish json
  | Bucket_File json string

datatype content = No_Content | Json_Content json | File_Content string

record request =
  rq_method :: string
  rq_endpoint :: endpoint
  rq_content :: content
  rq_headers :: "(string \<times> string) list"

record response =
  status_code :: nat
  reason_phrase :: string
  body :: "json option"

text \<open>
  The httpx session is outside the program: what it answers may depend on everything
  sent before. A call either raises (a transport error) or returns a response.
\<close>

type_synonym session = "request list \<Rightarrow> request \<Rightarrow> error + response"

text \<open>The file system, read by \<open>path.open("rb")\<close>: the content of a file, if it can be opened.\<close>

type_synonym files = "path \<Rightarrow> string option"

datatype level = Info | Warning | Error

datatype log_arg = Arg_json json | Arg_path path | Arg_str string | Arg_nat nat

text \<open>
  What the program does to the outside: the requests handed to the session, in order,
  and the calls made on the logger, in order.
\<close>

record world =
  sent :: "request list"
  logged :: "(level \<times> string \<times> log_arg list) list"

definition log_call :: "level \<Rightarrow> string \<Rightarrow> log_arg list \<Rightarrow> world \<Rightarrow> world" where
  "log_call lv fmt args w = w\<lparr>logged := logged w @ [(lv, fmt, args)]\<rparr>"

text \<open>
  httpx's \<open>response.is_success\<close> (a 2xx status), \<open>response.raise_for_status()\<close> (raises
  unless the response is a success) and \<open>response.json()\<close> (raises when the body is not
  JSON).
\<close>

definition is_success :: "response \<Rightarrow> bool" where
  "is_success r = (200 \<le> status_code r \<and> status_code r < 300)"

definition raise_for_status :: "response \<Rightarrow> error + unit" where
  "raise_for_status r = (if is_success r then Inr () else Inl (HTTPStatusError (status_code r)))"

definition response_json :: "response \<Rightarrow> error + json" where
  "response_json r = (case body r of None \<Rightarrow> Inl JSONDecodeError | Some j \<Rightarrow> Inr j)"

section \<open>The transaction\<close>

datatype State = Pending | Committed | Aborted | Leaked

fun state_value :: "State \<Rightarrow> string" where
  "state_value Pending = ''pending''"
| "state_value Committed = ''committed''"
| "state_value Aborted = ''aborted''"
| "state_value Leaked = ''leaked''"

text \<open>
  A \<open>DepositionTransaction\<close> object: the raw record and the lifecycle state. Its
  \<open>_client\<close> is the session the methods below take as their first argument.
\<close>

record DepositionTransaction =
  deposition_json :: json
  state :: State

definition new_DepositionTransaction :: "json \<Rightarrow> DepositionTransaction" where
  "new_DepositionTransaction j = \<lparr>deposition_json = j, state = Pending\<rparr>"

subsection \<open>Accessors\<close>

definition deposition_id :: "DepositionTransaction \<Rightarrow> error + json" where
  "deposition_id t = subscript (deposition_json t) ''id''"

definition reserved_deposition_doi :: "DepositionTransaction \<Rightarrow> error + json" where
  "reserved_deposition_doi t =
     (case subscript (deposition_json t) ''metadata'' of
        Inl e \<Rightarrow> Inl e
      | Inr md \<Rightarrow>
          (case dict_get md ''prereserve_doi'' of
             Inl e \<Rightarrow> Inl e
           | Inr obj \<Rightarrow> if obj = JNull then Inr JNull else subscript obj ''doi''))"

definition bucket_link :: "DepositionTransaction \<Rightarrow> error + json" where
  "bucket_link t =
     (case subscript (deposition_json t) ''links'' of
        Inl e \<Rightarrow> Inl e
      | Inr ls \<Rightarrow> subscript ls ''bucket'')"

definition pending :: "DepositionTransaction \<Rightarrow> bool" where
  "pending t = (state t = Pending)"

definition committed :: "DepositionTransaction \<Rightarrow> bool" where
  "committed t = (state t = Committed)"

definition aborted :: "DepositionTransaction \<Rightarrow> bool" where
  "aborted t = (state t = Aborted)"

definition leaked :: "DepositionTransaction \<Rightarrow> bool" where
  "leaked t = (state t = Leaked)"


section \<open>The client\<close>

text \<open>
  \<open>Client._request\<close>. With a model, the body is the model's JSON and the content type is
  set; then the request goes to the session, whatever the session does with it.
\<close>

definition client_request ::
  "session \<Rightarrow> string \<Rightarrow> endpoint \<Rightarrow> content \<Rightarrow> (string \<times> string) list option \<Rightarrow>
   Deposition option \<Rightarrow> world \<Rightarrow> (error + response) \<times> world" where
  "client_request c m ep cont hdrs model w =
     (let hs = (case hdrs of None \<Rightarrow> [] | Some h \<Rightarrow> h);
          cont' = (case model of None \<Rightarrow> cont | Some d \<Rightarrow> Json_Content (model_dump_json d));
          hs' = (case model of None \<Rightarrow> hs
                 | Some d \<Rightarrow> AList.update ''Content-Type'' ''application/json'' hs);
          rq = \<lparr>rq_method = m, rq_endpoint = ep, rq_content = cont', rq_headers = hs'\<rparr>
      in (c (sent w) rq, w\<lparr>sent := sent w @ [rq]\<rparr>))"

definition get_deposition :: "session \<Rightarrow> json \<Rightarrow> world \<Rightarrow> (error + json) \<times> world" where
  "get_deposition c i w =
     (case client_request c ''GET'' (Deposition_Item i) No_Content None None w of
        (Inl e, w') \<Rightarrow> (Inl e, w')
      | (Inr r, w') \<Rightarrow>
          (case raise_for_status r of
             Inl e \<Rightarrow> (Inl e, w')
           | Inr _ \<Rightarrow> (response_json r, w')))"

definition start_new_deposition ::
  "session \<Rightarrow> DepositionMetadata \<Rightarrow> world \<Rightarrow> (error + DepositionTransaction) \<times> world" where
  "start_new_deposition c md w =
     (case client_request c ''POST'' Depositions No_Content None (Some \<lparr>metadata = md\<rparr>) w of
        (Inl e, w') \<Rightarrow> (Inl e, w')
      | (Inr r, w') \<Rightarrow>
          (case raise_for_status r of
             Inl e \<Rightarrow> (Inl e, w')
           | Inr _ \<Rightarrow>
               (case response_json r of
                  Inl e \<Rightarrow> (Inl e, w')
                | Inr j \<Rightarrow>
                    (let t = new_DepositionTransaction j
                     in case deposition_id t of
                          Inl e \<Rightarrow> (Inl e, w')
                        | Inr i \<Rightarrow>
                            (Inr t, log_call Info ''Deposition started: %s'' [Arg_json i] w')))))"

definition continue_deposition ::
  "session \<Rightarrow> json \<Rightarrow> world \<Rightarrow> (error + DepositionTransaction) \<times> world" where
  "continue_deposition c i w =
     (case get_deposition c i w of
        (Inl e, w') \<Rightarrow> (Inl e, w')
      | (Inr d, w') \<Rightarrow>
          (case subscript d ''submitted'' of
             Inl e \<Rightarrow> (Inl e, w')
           | Inr sub \<Rightarrow>
               if truthy sub then
                 (Inl (ValueError
                   ''Cannot continue deposition {}, the deposition is not in progress.'' [i]), w')
               else
                 (case subscript d ''state'' of
                    Inl e \<Rightarrow> (Inl e, w')
                  | Inr st \<Rightarrow>
                      if st = JStr ''done'' \<or> st = JStr ''error'' then
                        (Inl (ValueError
                          ''Cannot continue deposition {}, the deposition is not in progress.''
                          [i]), w')
                      else
                        (let t = new_DepositionTransaction d
                         in case deposition_id t of
                              Inl e \<Rightarrow> (Inl e, w')
                            | Inr j \<Rightarrow>
                                (Inr t,
                                 log_call Info ''Continuing deposition %s'' [Arg_json j] w')))))"

definition commit_deposition :: "session \<Rightarrow> json \<Rightarrow> world \<Rightarrow> (error + unit) \<times> world" where
  "commit_deposition c i w =
     (case client_request c ''POST'' (Deposition_Publish i) No_Content None None w of
        (Inl e, w') \<Rightarrow> (Inl e, w')
      | (Inr r, w') \<Rightarrow>
          (case raise_for_status r of
             Inl e \<Rightarrow> (Inl e, w')
           | Inr _ \<Rightarrow> (Inr (), log_call Info ''Deposition committed: %s'' [Arg_json i] w')))"

definition abort_deposition :: "session \<Rightarrow> json \<Rightarrow> world \<Rightarrow> (error + unit) \<times> world" where
  "abort_deposition c i w =
     (case client_request c ''DELETE'' (Deposition_Item i) No_Content None None w of
        (Inl e, w') \<Rightarrow> (Inl e, w')
      | (Inr r, w') \<Rightarrow>
          (case raise_for_status r of
             Inl e \<Rightarrow> (Inl e, w')
           | Inr _ \<Rightarrow> (Inr (), log_call Warning ''Deposition aborted: %s'' [Arg_json i] w')))"

text \<open>
  \<open>Client.add_file_to_deposition\<close>: the response comes back whatever its status. (The
  quote characters inside the log templates are left out.)
\<close>

definition add_file_to_deposition ::
  "session \<Rightarrow> files \<Rightarrow> json \<Rightarrow> path \<Rightarrow> string option \<Rightarrow> world \<Rightarrow>
   (error + response) \<times> world" where
  "add_file_to_deposition c fs bl p name_arg w =
     (let nm = (case name_arg of None \<Rightarrow> path_name p | Some n \<Rightarrow> n);
          w1 = log_call Info ''Adding file to deposition on bucket link %s: %s with name %s''
                 [Arg_json bl, Arg_path p, Arg_str nm] w
      in case fs p of
           None \<Rightarrow> (Inl OSError, w1)
         | Some data \<Rightarrow>
             (case client_request c ''PUT'' (Bucket_File bl nm) (File_Content data)
                     (Some [(''Content-Type'', ''application/octet-stream'')]) None w1 of
                (Inl e, w2) \<Rightarrow> (Inl e, w2)
              | (Inr r, w2) \<Rightarrow>
                  (Inr r,
                   if is_success r then
                     log_call Info ''File successfully added: %s'' [Arg_path p] w2
                   else
                     log_call Error ''Failed to add file to deposition: %s (%s %s)''
                       [Arg_path p, Arg_nat (status_code r), Arg_str (reason_phrase r)] w2)))"

section \<open>The transaction's operations\<close>

definition commit ::
  "session \<Rightarrow> DepositionTransaction \<Rightarrow> world \<Rightarrow> (error + unit) \<times> DepositionTransaction \<times> world"
  where
  "commit c t w =
     (if \<not> pending t then
        (case deposition_id t of
           Inl e \<Rightarrow> (Inl e, t, w)
         | Inr i \<Rightarrow>
             (Inr (), t,
              log_call Warning ''Deposition %s is %s when committing.''
                [Arg_json i, Arg_str (state_value (state t))] w))
      else
        (case deposition_id t of
           Inl e \<Rightarrow> (Inl e, t, w)
         | Inr i \<Rightarrow>
             (case commit_deposition c i w of
                (Inl e, w') \<Rightarrow> (Inl e, t, w')
              | (Inr _, w') \<Rightarrow> (Inr (), t\<lparr>state := Committed\<rparr>, w'))))"

text \<open>
  The last two statements of \<open>abort\<close>, reached by every branch that does not return:
  the delete request, and after it the assignment of the state.
\<close>

definition abort_tail ::
  "session \<Rightarrow> DepositionTransaction \<Rightarrow> world \<Rightarrow> (error + unit) \<times> DepositionTransaction \<times> world"
  where
  "abort_tail c t w =
     (case deposition_id t of
        Inl e \<Rightarrow> (Inl e, t, w)
      | Inr i \<Rightarrow>
          (case abort_deposition c i w of
             (Inl e, w') \<Rightarrow> (Inl e, t, w')
           | (Inr _, w') \<Rightarrow> (Inr (), t\<lparr>state := Aborted\<rparr>, w')))"

text \<open>
  \<open>abort\<close>: the \<open>committed\<close> branch logs and has no \<open>return\<close>, so it goes on to the
  delete request; the \<open>leaked\<close> and \<open>aborted\<close> branches log and return.
\<close>

definition abort ::
  "session \<Rightarrow> DepositionTransaction \<Rightarrow> world \<Rightarrow> (error + unit) \<times> DepositionTransaction \<times> world"
  where
  "abort c t w =
     (if committed t then
        (case deposition_id t of
           Inl e \<Rightarrow> (Inl e, t, w)
         | Inr i \<Rightarrow>
             abort_tail c t
               (log_call Warning ''Aborting deposition %s which has been committed.''
                  [Arg_json i] w))
      else if leaked t then
        (case deposition_id t of
           Inl e \<Rightarrow> (Inl e, t, w)
         | Inr i \<Rightarrow>
             (Inr (), t,
              log_call Warning ''Deposition %s was leaked but abort was called; not aborting''
                [Arg_json i] w))
      else if aborted t then
        (case deposition_id t of
           Inl e \<Rightarrow> (Inl e, t, w)
         | Inr i \<Rightarrow>
             (Inr (), t,
              log_call Warning ''Deposition %s was already aborted; not aborting again''
                [Arg_json i] w))
      else abort_tail c t w)"

definition expect_pending :: "string \<Rightarrow> DepositionTransaction \<Rightarrow> error + unit" where
  "expect_pending operation t =
     (if \<not> pending t then
        (case deposition_id t of
           Inl e \<Rightarrow> Inl e
         | Inr i \<Rightarrow>
             Inl (ValueError ''Cannot {} deposition {} because the deposition has been {}''
                    [JStr operation, i, JStr (state_value (state t))]))
      else Inr ())"

definition leak :: "DepositionTransaction \<Rightarrow> (error + unit) \<times> DepositionTransaction" where
  "leak t =
     (case expect_pending ''leak'' t of
        Inl e \<Rightarrow> (Inl e, t)
      | Inr _ \<Rightarrow> (Inr (), t\<lparr>state := Leaked\<rparr>))"

definition add_file ::
  "session \<Rightarrow> files \<Rightarrow> path \<Rightarrow> string option \<Rightarrow> DepositionTransaction \<Rightarrow> world \<Rightarrow>
   (error + response) \<times> DepositionTransaction \<times> world" where
  "add_file c fs p name_arg t w =
     (case expect_pending ''add a file to'' t of
        Inl e \<Rightarrow> (Inl e, t, w)
      | Inr _ \<Rightarrow>
          (case bucket_link t of
             Inl e \<Rightarrow> (Inl e, t, w)
           | Inr bl \<Rightarrow>
               (case add_file_to_deposition c fs bl p name_arg w of
                  (r, w') \<Rightarrow> (r, t, w'))))"

text \<open>
  \<open>__exit__\<close>, run when the \<open>with\<close> block is left. Its argument is the exception that
  ended the block, if any; the body does not look at it.
\<close>

definition transaction_exit ::
  "session \<Rightarrow> error option \<Rightarrow> DepositionTransaction \<Rightarrow> world \<Rightarrow>
   (error + unit) \<times> DepositionTransaction \<times> world" where
  "transaction_exit c exc t w =
     (if \<not> committed t \<and> \<not> leaked t then abort c t w else (Inr (), t, w))"

section \<open>Callers and observations\<close>

text \<open>
  A caller's statement sequence \<open>t.leak(); t.add_file(path, name=...)\<close>: the second call
  is reached only if the first one returned.
\<close>

definition leak_then_add_file ::
  "session \<Rightarrow> files \<Rightarrow> path \<Rightarrow> string option \<Rightarrow> DepositionTransaction \<Rightarrow> world \<Rightarrow>
   (error + response) \<times> DepositionTransaction \<times> world" where
  "leak_then_add_file c fs p name_arg t w =
     (case leak t of
        (Inl e, t') \<Rightarrow> (Inl e, t', w)
      | (Inr _, t') \<Rightarrow> add_file c fs p name_arg t' w)"

text \<open>
  A caller that applies operations to one transaction, one after another, and goes on
  after an operation that raised (it catches the exception): what is left is the
  transaction and the world.
\<close>

datatype operation = Commit | Abort | Leak | Add_File path "string option"

fun apply_op ::
  "session \<Rightarrow> files \<Rightarrow> operation \<Rightarrow> DepositionTransaction \<times> world \<Rightarrow>
   DepositionTransaction \<times> world" where
  "apply_op c fs Commit (t, w) = snd (commit c t w)"
| "apply_op c fs Abort (t, w) = snd (abort c t w)"
| "apply_op c fs Leak (t, w) = (snd (leak t), w)"
| "apply_op c fs (Add_File p name_arg) (t, w) = snd (add_file c fs p name_arg t w)"

fun run_ops ::
  "session \<Rightarrow> files \<Rightarrow> operation list \<Rightarrow> DepositionTransaction \<times> world \<Rightarrow>
   DepositionTransaction \<times> world" where
  "run_ops c fs [] tw = tw"
| "run_ops c fs (x # xs) tw = run_ops c fs xs (apply_op c fs x tw)"

text \<open>The requests that \<open>abort_deposition\<close>, \<open>commit_deposition\<close> and
  \<open>start_new_deposition\<close> hand to the session.\<close>

definition delete_request :: "json \<Rightarrow> request" where
  "delete_request i =
     \<lparr>rq_method = ''DELETE'', rq_endpoint = Deposition_Item i, rq_content = No_Content,
      rq_headers = []\<rparr>"

definition publish_request :: "json \<Rightarrow> request" where
  "publish_request i =
     \<lparr>rq_method = ''POST'', rq_endpoint = Deposition_Publish i, rq_content = No_Content,
      rq_headers = []\<rparr>"

definition create_request :: "DepositionMetadata \<Rightarrow> request" where
  "create_request md =
     \<lparr>rq_method = ''POST'', rq_endpoint = Depositions,
      rq_content = Json_Content (model_dump_json \<lparr>metadata = md\<rparr>),
      rq_headers = [(''Content-Type'', ''application/json'')]\<rparr>"

text \<open>The session answers a request with a success status: the remote call returns
  instead of raising.\<close>

definition accepted :: "session \<Rightarrow> world \<Rightarrow> request \<Rightarrow> bool" where
  "accepted c w rq = (case c (sent w) rq of Inl e \<Rightarrow> False | Inr r \<Rightarrow> is_success r)"

text \<open>The domain errors of the source are its \<open>ValueError\<close>s.\<close>

fun domain_error :: "error \<Rightarrow> bool" where
  "domain_error (ValueError msg vs) = True"
| "domain_error _ = False"

text \<open>The keys of a serialised object, in order.\<close>

fun keys :: "json \<Rightarrow> string list" where
  "keys (JObj kvs) = map fst kvs"
| "keys _ = []"

text \<open>Concrete surroundings for the examples: a session that answers every request
  alike, a file system without files, and a world in which nothing has happened yet.\<close>

definition respond :: "nat \<Rightarrow> json option \<Rightarrow> session" where
  "respond code b hist rq = Inr \<lparr>status_code = code, reason_phrase = [], body = b\<rparr>"

definition no_files :: files where
  "no_files p = None"

definition fresh_world :: world where
  "fresh_world = \<lparr>sent = [], logged = []\<rparr>"

section \<open>The remote calls\<close>

lemma abort_deposition_eq:
  "abort_deposition c i w =
     (case c (sent w) (delete_request i) of
        Inl e \<Rightarrow> (Inl e, w\<lparr>sent := sent w @ [delete_request i]\<rparr>)
      | Inr r \<Rightarrow>
          if is_success r then
            (Inr (), log_call Warning ''Deposition aborted: %s'' [Arg_json i]
                       (w\<lparr>sent := sent w @ [delete_request i]\<rparr>))
          else (Inl (HTTPStatusError (status_code r)), w\<lparr>sent := sent w @ [delete_request i]\<rparr>))"
  by (simp add: abort_deposition_def client_request_def delete_request_def Let_def
      raise_for_status_def split: sum.split)

lemma commit_deposition_eq:
  "commit_deposition c i w =
     (case c (sent w) (publish_request i) of
        Inl e \<Rightarrow> (Inl e, w\<lparr>sent := sent w @ [publish_request i]\<rparr>)
      | Inr r \<Rightarrow>
          if is_success r then
            (Inr (), log_call Info ''Deposition committed: %s'' [Arg_json i]
                       (w\<lparr>sent := sent w @ [publish_request i]\<rparr>))
          else (Inl (HTTPStatusError (status_code r)), w\<lparr>sent := sent w @ [publish_request i]\<rparr>))"
  by (simp add: commit_deposition_def client_request_def publish_request_def Let_def
      raise_for_status_def split: sum.split)

lemma abort_deposition_sent:
  "sent (snd (abort_deposition c i w)) = sent w @ [delete_request i]"
  by (simp add: abort_deposition_eq log_call_def split: sum.split)

lemma abort_deposition_result:
  "fst (abort_deposition c i w) = Inr () \<longleftrightarrow> accepted c w (delete_request i)"
  by (simp add: abort_deposition_eq accepted_def split: sum.split)

lemma abort_deposition_logged:
  "logged (snd (abort_deposition c i w)) =
     logged w @ (if accepted c w (delete_request i)
                 then [(Warning, ''Deposition aborted: %s'', [Arg_json i])] else [])"
  by (simp add: abort_deposition_eq accepted_def log_call_def split: sum.split)

lemma commit_deposition_sent:
  "sent (snd (commit_deposition c i w)) = sent w @ [publish_request i]"
  by (simp add: commit_deposition_eq log_call_def split: sum.split)

lemma commit_deposition_result:
  "fst (commit_deposition c i w) = Inr () \<longleftrightarrow> accepted c w (publish_request i)"
  by (simp add: commit_deposition_eq accepted_def split: sum.split)

lemma abort_tail_eq:
  "deposition_id t = Inr i \<Longrightarrow>
   abort_tail c t w =
     (if accepted c w (delete_request i)
      then (Inr (), t\<lparr>state := Aborted\<rparr>, snd (abort_deposition c i w))
      else (fst (abort_deposition c i w), t, snd (abort_deposition c i w)))"
  using abort_deposition_result [of c i w]
  by (cases "abort_deposition c i w") (auto simp add: abort_tail_def split: sum.splits)

lemma abort_tail_sent:
  "deposition_id t = Inr i \<Longrightarrow>
   sent (snd (snd (abort_tail c t w))) = sent w @ [delete_request i]"
  by (simp add: abort_tail_eq abort_deposition_sent)

lemma abort_tail_state:
  "deposition_id t = Inr i \<Longrightarrow>
   fst (snd (abort_tail c t w)) =
     (if accepted c w (delete_request i) then t\<lparr>state := Aborted\<rparr> else t)"
  by (simp add: abort_tail_eq)

lemma abort_tail_result:
  "deposition_id t = Inr i \<Longrightarrow>
   fst (abort_tail c t w) = Inr () \<longleftrightarrow> accepted c w (delete_request i)"
  by (simp add: abort_tail_eq abort_deposition_result)

lemma abort_tail_logged:
  "deposition_id t = Inr i \<Longrightarrow>
   logged (snd (snd (abort_tail c t w))) =
     logged w @ (if accepted c w (delete_request i)
                 then [(Warning, ''Deposition aborted: %s'', [Arg_json i])] else [])"
  by (simp add: abort_tail_eq abort_deposition_logged)

lemma deposition_id_state [simp]: "deposition_id (t\<lparr>state := s\<rparr>) = deposition_id t"
  by (simp add: deposition_id_def)

lemma accepted_log_call [simp]: "accepted c (log_call lv f a w) rq = accepted c w rq"
  by (simp add: accepted_def log_call_def)

lemma sent_log_call [simp]: "sent (log_call lv f a w) = sent w"
  by (simp add: log_call_def)

lemma logged_log_call [simp]: "logged (log_call lv f a w) = logged w @ [(lv, f, a)]"
  by (simp add: log_call_def)


section \<open>How the state moves\<close>

lemma commit_eq:
  "deposition_id t = Inr i \<Longrightarrow>
   commit c t w =
     (if state t \<noteq> Pending then
        (Inr (), t,
         log_call Warning ''Deposition %s is %s when committing.''
           [Arg_json i, Arg_str (state_value (state t))] w)
      else if accepted c w (publish_request i)
      then (Inr (), t\<lparr>state := Committed\<rparr>, snd (commit_deposition c i w))
      else (fst (commit_deposition c i w), t, snd (commit_deposition c i w)))"
  using commit_deposition_result [of c i w]
  by (cases "commit_deposition c i w") (auto simp add: commit_def pending_def split: sum.splits)

lemma commit_raises_unchanged: "commit c t w = (Inl e, t', w') \<Longrightarrow> t' = t"
  by (auto simp add: commit_def split: sum.splits if_splits prod.splits)

lemma abort_tail_raises_unchanged: "abort_tail c t w = (Inl e, t', w') \<Longrightarrow> t' = t"
  by (auto simp add: abort_tail_def split: sum.splits if_splits prod.splits)

lemma abort_raises_unchanged: "abort c t w = (Inl e, t', w') \<Longrightarrow> t' = t"
  by (auto simp add: abort_def dest: abort_tail_raises_unchanged split: sum.splits if_splits)

lemma abort_pending: "state t = Pending \<Longrightarrow> abort c t w = abort_tail c t w"
  by (simp add: abort_def committed_def leaked_def aborted_def)

lemma abort_settled:
  "state t = Aborted \<or> state t = Leaked \<Longrightarrow>
   fst (snd (abort c t w)) = t \<and> sent (snd (snd (abort c t w))) = sent w"
  by (auto simp add: abort_def committed_def leaked_def aborted_def split: sum.splits)

lemma commit_not_pending:
  "state t \<noteq> Pending \<Longrightarrow>
   fst (snd (commit c t w)) = t \<and> sent (snd (snd (commit c t w))) = sent w"
  by (auto simp add: commit_def pending_def split: sum.splits)

lemma leak_not_pending: "state t \<noteq> Pending \<Longrightarrow> snd (leak t) = t"
  by (auto simp add: leak_def expect_pending_def pending_def split: sum.splits)

lemma add_file_not_pending:
  "state t \<noteq> Pending \<Longrightarrow> snd (add_file c fs p n t w) = (t, w)"
  by (auto simp add: add_file_def expect_pending_def pending_def split: sum.splits)

lemma add_file_transaction: "fst (snd (add_file c fs p n t w)) = t"
  by (auto simp add: add_file_def split: sum.splits prod.splits)

lemma abort_tail_state_cases:
  "state (fst (snd (abort_tail c t w))) = state t \<or> state (fst (snd (abort_tail c t w))) = Aborted"
  by (auto simp add: abort_tail_def split: sum.splits prod.splits)

lemma abort_state_cases:
  "state (fst (snd (abort c t w))) = state t \<or> state (fst (snd (abort c t w))) = Aborted"
  using abort_tail_state_cases
  by (auto simp add: abort_def split: sum.splits)

lemma apply_op_settled:
  "state t = Aborted \<or> state t = Leaked \<Longrightarrow> fst (apply_op c fs x (t, w)) = t"
proof (cases x)
  case Commit
  assume "state t = Aborted \<or> state t = Leaked"
  then have "state t \<noteq> Pending" by auto
  with Commit show ?thesis using commit_not_pending [of t c w] by simp
next
  case Abort
  assume "state t = Aborted \<or> state t = Leaked"
  with Abort show ?thesis using abort_settled [of t c w] by simp
next
  case Leak
  assume "state t = Aborted \<or> state t = Leaked"
  then have "state t \<noteq> Pending" by auto
  with Leak show ?thesis using leak_not_pending [of t] by simp
next
  case (Add_File p n)
  then show ?thesis using add_file_transaction [of c fs p n t w] by simp
qed

lemma apply_op_committed:
  "state t = Committed \<Longrightarrow>
   state (fst (apply_op c fs x (t, w))) = Committed
   \<or> (x = Abort \<and> state (fst (apply_op c fs x (t, w))) = Aborted)"
proof (cases x)
  case Commit
  assume "state t = Committed"
  then have "state t \<noteq> Pending" by auto
  with Commit \<open>state t = Committed\<close> show ?thesis using commit_not_pending [of t c w] by simp
next
  case Abort
  assume "state t = Committed"
  with Abort show ?thesis using abort_state_cases [of c t w] by auto
next
  case Leak
  assume "state t = Committed"
  then have "state t \<noteq> Pending" by auto
  with Leak \<open>state t = Committed\<close> show ?thesis using leak_not_pending [of t] by simp
next
  case (Add_File p n)
  assume "state t = Committed"
  with Add_File show ?thesis using add_file_transaction [of c fs p n t w] by simp
qed

lemma run_ops_settled:
  "state (fst tw) = Aborted \<or> state (fst tw) = Leaked \<Longrightarrow>
   fst (run_ops c fs ops tw) = fst tw"
proof (induction ops arbitrary: tw)
  case Nil
  then show ?case by simp
next
  case (Cons x xs)
  obtain t w where tw: "tw = (t, w)" by (cases tw)
  with Cons.prems have keep: "fst (apply_op c fs x tw) = t"
    using apply_op_settled [of t c fs x w] by simp
  with Cons.prems tw have "fst (run_ops c fs xs (apply_op c fs x tw)) = fst (apply_op c fs x tw)"
    by (intro Cons.IH) simp
  with keep tw show ?case by simp
qed

lemma run_ops_committed_no_abort:
  "state (fst tw) = Committed \<Longrightarrow> Abort \<notin> set ops \<Longrightarrow>
   state (fst (run_ops c fs ops tw)) = Committed"
proof (induction ops arbitrary: tw)
  case Nil
  then show ?case by simp
next
  case (Cons x xs)
  obtain t w where tw: "tw = (t, w)" by (cases tw)
  from Cons.prems tw have "state (fst (apply_op c fs x tw)) = Committed"
    using apply_op_committed [of t c fs x w] by auto
  with Cons.prems show ?case by (simp add: Cons.IH)
qed

lemma run_ops_committed:
  "state (fst tw) = Committed \<Longrightarrow>
   state (fst (run_ops c fs ops tw)) = Committed \<or> state (fst (run_ops c fs ops tw)) = Aborted"
proof (induction ops arbitrary: tw)
  case Nil
  then show ?case by simp
next
  case (Cons x xs)
  obtain t w where tw: "tw = (t, w)" by (cases tw)
  from Cons.prems tw consider
      "state (fst (apply_op c fs x tw)) = Committed"
    | "state (fst (apply_op c fs x tw)) = Aborted"
    using apply_op_committed [of t c fs x w] by auto
  then show ?case
  proof cases
    case 1
    then show ?thesis using Cons.IH [of "apply_op c fs x tw"] by simp
  next
    case 2
    then show ?thesis using run_ops_settled [of "apply_op c fs x tw" c fs xs] by simp
  qed
qed

lemma start_new_deposition_has_id:
  "start_new_deposition c md w = (Inr t, w') \<Longrightarrow>
   state t = Pending \<and> (\<exists>i. deposition_id t = Inr i)"
  by (auto simp add: start_new_deposition_def new_DepositionTransaction_def Let_def
      split: prod.splits sum.splits)

lemma continue_deposition_has_id:
  "continue_deposition c i w = (Inr t, w') \<Longrightarrow>
   state t = Pending \<and> (\<exists>j. deposition_id t = Inr j)"
  by (auto simp add: continue_deposition_def new_DepositionTransaction_def Let_def
      split: prod.splits sum.splits if_splits)

lemma apply_op_record: "deposition_json (fst (apply_op c fs x (t, w))) = deposition_json t"
proof (cases x)
  case Commit
  then show ?thesis
    by (auto simp add: commit_def split: sum.splits prod.splits)
next
  case Abort
  then show ?thesis
    by (auto simp add: abort_def abort_tail_def split: sum.splits prod.splits)
next
  case Leak
  then show ?thesis
    by (auto simp add: leak_def split: sum.splits)
next
  case (Add_File p n)
  then show ?thesis using add_file_transaction [of c fs p n t w] by simp
qed

lemma expect_pending_eq:
  "deposition_id t = Inr i \<Longrightarrow>
   expect_pending operation t =
     (if state t = Pending then Inr ()
      else Inl (ValueError ''Cannot {} deposition {} because the deposition has been {}''
                  [JStr operation, i, JStr (state_value (state t))]))"
  by (simp add: expect_pending_def pending_def)

section \<open>The claims\<close>

text \<open>
  The statements about a transaction's operations suppose that its record has an \<open>id\<close>:
  by \<open>start_new_deposition_has_id\<close> and \<open>continue_deposition_has_id\<close> every
  transaction the client hands out has one, and by \<open>apply_op_record\<close> no operation
  touches the record.
\<close>

subsection \<open>C1\<close>

text \<open>
  C1, as the code has it: for every transaction in the Committed state whose record has
  an id, \<open>abort()\<close> logs the warning and then goes on to \<open>Client.abort_deposition\<close>: the
  delete request is issued. If the session accepts it the state becomes Aborted; if the
  remote call raises, the state stays Committed.
\<close>

theorem C1_abort_committed:
  assumes "state t = Committed" and "deposition_id t = Inr i"
    and "abort c t w = (r, t', w')"
  shows "sent w' = sent w @ [delete_request i]
       \<and> (Warning, ''Aborting deposition %s which has been committed.'', [Arg_json i])
           \<in> set (logged w')
       \<and> (r = Inr ()) = accepted c w (delete_request i)
       \<and> state t' = (if accepted c w (delete_request i) then Aborted else Committed)"
proof -
  let ?w1 = "log_call Warning ''Aborting deposition %s which has been committed.''
               [Arg_json i] w"
  from assms have eq: "abort_tail c t ?w1 = (r, t', w')"
    by (simp add: abort_def committed_def)
  have "sent w' = sent w @ [delete_request i]"
    using abort_tail_sent [OF assms(2), of c ?w1] eq by simp
  moreover have "(r = Inr ()) = accepted c w (delete_request i)"
    using abort_tail_result [OF assms(2), of c ?w1] eq by simp
  moreover have "state t' = (if accepted c w (delete_request i) then Aborted else Committed)"
    using abort_tail_state [OF assms(2), of c ?w1] eq assms(1) by auto
  moreover have "(Warning, ''Aborting deposition %s which has been committed.'', [Arg_json i])
           \<in> set (logged w')"
    using abort_tail_logged [OF assms(2), of c ?w1] eq by simp
  ultimately show ?thesis by simp
qed

theorem C1_abort_committed_witness:
  "sent (snd (snd (abort (respond 500 None)
        \<lparr>deposition_json = JObj [(''id'', JNum 7)], state = Committed\<rparr> fresh_world)))
     = [delete_request (JNum 7)]
   \<and> state (fst (snd (abort (respond 500 None)
        \<lparr>deposition_json = JObj [(''id'', JNum 7)], state = Committed\<rparr> fresh_world))) = Committed"
proof -
  let ?t = "\<lparr>deposition_json = JObj [(''id'', JNum 7)], state = Committed\<rparr>"
  have s: "state ?t = Committed" by simp
  have i: "deposition_id ?t = Inr (JNum 7)" by (simp add: deposition_id_def)
  have a: "\<not> accepted (respond 500 None) fresh_world (delete_request (JNum 7))"
    by (simp add: accepted_def respond_def is_success_def)
  obtain r t' w' where eq: "abort (respond 500 None) ?t fresh_world = (r, t', w')"
    by (cases "abort (respond 500 None) ?t fresh_world") auto
  have e: "sent fresh_world = []" by (simp add: fresh_world_def)
  show ?thesis
    using C1_abort_committed [OF s i eq] a e by (simp add: eq)
qed

text \<open>
  The claim as it was stated fails: a Committed transaction, a session that accepts the
  delete request, and \<open>abort()\<close> sends the request and leaves the state Aborted.
\<close>

theorem C1_counterexample:
  "state \<lparr>deposition_json = JObj [(''id'', JNum 1)], state = Committed\<rparr> = Committed
   \<and> state (fst (snd (abort (respond 204 None)
        \<lparr>deposition_json = JObj [(''id'', JNum 1)], state = Committed\<rparr> fresh_world))) = Aborted
   \<and> sent (snd (snd (abort (respond 204 None)
        \<lparr>deposition_json = JObj [(''id'', JNum 1)], state = Committed\<rparr> fresh_world)))
       = [delete_request (JNum 1)]"
  by (simp add: abort_def abort_tail_def committed_def deposition_id_def abort_deposition_def
      client_request_def respond_def raise_for_status_def is_success_def fresh_world_def
      log_call_def delete_request_def)

subsection \<open>C2\<close>

text \<open>
  C2, as the code has it: once the state is Aborted or Leaked, no sequence of
  operations (commit, abort, leak, add_file) changes the transaction. From Committed,
  commit, leak and add_file leave the state Committed, and a sequence of operations can
  only end in Committed or, through \<open>abort()\<close>, in Aborted.
\<close>

theorem C2_settled_states:
  "(state t = Aborted \<or> state t = Leaked \<longrightarrow> fst (run_ops c fs ops (t, w)) = t)
   \<and> (state t = Committed \<and> Abort \<notin> set ops \<longrightarrow>
        state (fst (run_ops c fs ops (t, w))) = Committed)
   \<and> (state t = Committed \<longrightarrow>
        state (fst (run_ops c fs ops (t, w))) = Committed
        \<or> state (fst (run_ops c fs ops (t, w))) = Aborted)"
  using run_ops_settled [of "(t, w)" c fs ops] run_ops_committed_no_abort [of "(t, w)" ops c fs]
    run_ops_committed [of "(t, w)" c fs ops]
  by simp

theorem C2_settled_states_witness:
  "fst (run_ops (respond 204 None) no_files [Commit, Abort, Leak, Add_File [''a''] None]
        (\<lparr>deposition_json = JObj [(''id'', JNum 1)], state = Leaked\<rparr>, fresh_world))
     = \<lparr>deposition_json = JObj [(''id'', JNum 1)], state = Leaked\<rparr>
   \<and> state (fst (run_ops (respond 204 None) no_files [Commit, Leak]
        (\<lparr>deposition_json = JObj [(''id'', JNum 1)], state = Committed\<rparr>, fresh_world)))
     = Committed"
  using C2_settled_states [of "\<lparr>deposition_json = JObj [(''id'', JNum 1)], state = Leaked\<rparr>"
      "respond 204 None" no_files "[Commit, Abort, Leak, Add_File [''a''] None]" fresh_world]
    C2_settled_states [of "\<lparr>deposition_json = JObj [(''id'', JNum 1)], state = Committed\<rparr>"
      "respond 204 None" no_files "[Commit, Leak]" fresh_world]
  by simp

text \<open>
  The claim as it was stated fails for Committed: one \<open>abort()\<close> on a session that
  accepts the delete request moves a Committed transaction to Aborted.
\<close>

theorem C2_counterexample:
  "state \<lparr>deposition_json = JObj [(''id'', JNum 1)], state = Committed\<rparr> = Committed
   \<and> state (fst (run_ops (respond 204 None) no_files [Abort]
        (\<lparr>deposition_json = JObj [(''id'', JNum 1)], state = Committed\<rparr>, fresh_world)))
       = Aborted"
  by (simp add: abort_def abort_tail_def committed_def deposition_id_def abort_deposition_def
      client_request_def respond_def raise_for_status_def is_success_def fresh_world_def
      log_call_def)

subsection \<open>C3\<close>

text \<open>
  C3: on scope exit, normal or exceptional, a Pending transaction (whose record has an
  id) triggers exactly one remote delete request; a Committed or Leaked transaction
  triggers none and is left as it is.
\<close>

theorem C3_scope_exit:
  assumes "deposition_id t = Inr i" and "transaction_exit c exc t w = (r, t', w')"
  shows "(state t = Pending \<longrightarrow> sent w' = sent w @ [delete_request i])
       \<and> (state t = Committed \<or> state t = Leaked \<longrightarrow> sent w' = sent w \<and> t' = t \<and> r = Inr ())"
proof -
  have "sent w' = sent w @ [delete_request i]" if "state t = Pending"
  proof -
    from that assms(2) have "abort_tail c t w = (r, t', w')"
      by (simp add: transaction_exit_def committed_def leaked_def abort_pending)
    then show ?thesis using abort_tail_sent [OF assms(1), of c w] by simp
  qed
  moreover have "sent w' = sent w \<and> t' = t \<and> r = Inr ()"
    if "state t = Committed \<or> state t = Leaked"
    using that assms(2) by (auto simp add: transaction_exit_def committed_def leaked_def)
  ultimately show ?thesis by blast
qed

theorem C3_scope_exit_witness:
  "sent (snd (snd (transaction_exit (respond 204 None) (Some TransportError)
       \<lparr>deposition_json = JObj [(''id'', JNum 3)], state = Pending\<rparr> fresh_world)))
     = sent fresh_world @ [delete_request (JNum 3)]
   \<and> sent (snd (snd (transaction_exit (respond 204 None) None
       \<lparr>deposition_json = JObj [(''id'', JNum 3)], state = Leaked\<rparr> fresh_world)))
     = sent fresh_world"
proof -
  let ?p = "\<lparr>deposition_json = JObj [(''id'', JNum 3)], state = Pending\<rparr>"
  let ?l = "\<lparr>deposition_json = JObj [(''id'', JNum 3)], state = Leaked\<rparr>"
  have ip: "deposition_id ?p = Inr (JNum 3)" and il: "deposition_id ?l = Inr (JNum 3)"
    by (simp_all add: deposition_id_def)
  obtain r t' w' where
    ep: "transaction_exit (respond 204 None) (Some TransportError) ?p fresh_world = (r, t', w')"
    by (cases "transaction_exit (respond 204 None) (Some TransportError) ?p fresh_world") auto
  obtain r2 t2 w2 where
    el: "transaction_exit (respond 204 None) None ?l fresh_world = (r2, t2, w2)"
    by (cases "transaction_exit (respond 204 None) None ?l fresh_world") auto
  show ?thesis
    using C3_scope_exit [OF ip ep] C3_scope_exit [OF il el] by (simp add: ep el)
qed

subsection \<open>C4\<close>

text \<open>
  C4: for every transaction (whose record has an id), \<open>leak()\<close> and \<open>add_file()\<close> called
  when the state is not Pending raise a domain error and change nothing; \<open>leak()\<close> from
  Pending moves the state to Leaked; and \<open>leak()\<close> followed by \<open>add_file()\<close> fails with a
  domain error whatever the state was, without a request being sent.
\<close>

theorem C4_pending_only:
  assumes "deposition_id t = Inr i"
  shows "(state t \<noteq> Pending \<longrightarrow>
            (\<exists>e. domain_error e \<and> leak t = (Inl e, t))
          \<and> (\<exists>e. domain_error e \<and> add_file c fs p n t w = (Inl e, t, w)))
       \<and> (state t = Pending \<longrightarrow> leak t = (Inr (), t\<lparr>state := Leaked\<rparr>))
       \<and> (\<exists>e. domain_error e \<and> fst (leak_then_add_file c fs p n t w) = Inl e)
       \<and> sent (snd (snd (leak_then_add_file c fs p n t w))) = sent w"
proof -
  note ep = expect_pending_eq [OF assms]
  have a: "\<exists>e. domain_error e \<and> leak t = (Inl e, t)" if "state t \<noteq> Pending"
    using that by (simp add: leak_def ep)
  have b: "\<exists>e. domain_error e \<and> add_file c fs p n t w = (Inl e, t, w)"
    if "state t \<noteq> Pending"
    using that by (simp add: add_file_def ep)
  have l: "leak t = (Inr (), t\<lparr>state := Leaked\<rparr>)" if "state t = Pending"
    using that by (simp add: leak_def ep)
  have i': "deposition_id (t\<lparr>state := Leaked\<rparr>) = Inr i"
    using assms by (simp add: deposition_id_def)
  have s: "(\<exists>e. domain_error e \<and> fst (leak_then_add_file c fs p n t w) = Inl e)
       \<and> sent (snd (snd (leak_then_add_file c fs p n t w))) = sent w"
  proof (cases "state t = Pending")
    case True
    then show ?thesis
      by (simp add: leak_then_add_file_def l add_file_def expect_pending_eq [OF i'])
  next
    case False
    with a obtain e where "domain_error e" "leak t = (Inl e, t)" by blast
    then show ?thesis by (auto simp add: leak_then_add_file_def)
  qed
  from a b l s show ?thesis by blast
qed

theorem C4_pending_only_witness:
  "leak \<lparr>deposition_json = JObj [(''id'', JNum 4)], state = Pending\<rparr>
     = (Inr (), \<lparr>deposition_json = JObj [(''id'', JNum 4)], state = Leaked\<rparr>)
   \<and> (\<exists>e. domain_error e
        \<and> add_file (respond 200 None) no_files [''CITATION.cff''] None
            \<lparr>deposition_json = JObj [(''id'', JNum 4)], state = Committed\<rparr> fresh_world
          = (Inl e, \<lparr>deposition_json = JObj [(''id'', JNum 4)], state = Committed\<rparr>, fresh_world))"
proof -
  let ?p = "\<lparr>deposition_json = JObj [(''id'', JNum 4)], state = Pending\<rparr>"
  let ?c = "\<lparr>deposition_json = JObj [(''id'', JNum 4)], state = Committed\<rparr>"
  have ip: "deposition_id ?p = Inr (JNum 4)" and ic: "deposition_id ?c = Inr (JNum 4)"
    by (simp_all add: deposition_id_def)
  show ?thesis
    using C4_pending_only [OF ip, of "respond 200 None" no_files "[''CITATION.cff'']" None fresh_world]
      C4_pending_only [OF ic, of "respond 200 None" no_files "[''CITATION.cff'']" None fresh_world]
    by simp
qed

subsection \<open>C5\<close>

text \<open>
  C5: for every transaction (whose record has an id), \<open>commit()\<close> from Pending issues
  one publish request, returns exactly when the session accepts it, and then the state is
  Committed; \<open>commit()\<close> from any other state returns without raising, changes nothing,
  sends nothing and logs one warning. Hence after a successful \<open>commit()\<close> a second one,
  on whatever session, leaves the state Committed and sends no second publish request.
\<close>

theorem C5_commit:
  assumes "deposition_id t = Inr i" and "commit c t w = (r, t', w')"
  shows "(state t = Pending \<longrightarrow>
            sent w' = sent w @ [publish_request i]
          \<and> (r = Inr ()) = accepted c w (publish_request i)
          \<and> (r = Inr () \<longrightarrow> state t' = Committed))
       \<and> (state t \<noteq> Pending \<longrightarrow>
            r = Inr () \<and> t' = t \<and> sent w' = sent w
          \<and> logged w' = logged w @
              [(Warning, ''Deposition %s is %s when committing.'',
                [Arg_json i, Arg_str (state_value (state t))])])
       \<and> (state t = Pending \<and> r = Inr () \<longrightarrow>
            fst (commit c2 t' w') = Inr ()
          \<and> state (fst (snd (commit c2 t' w'))) = Committed
          \<and> sent (snd (snd (commit c2 t' w'))) = sent w')"
proof -
  note eq = commit_eq [OF assms(1), of c w]
  have p: "sent w' = sent w @ [publish_request i]
          \<and> (r = Inr ()) = accepted c w (publish_request i)
          \<and> (r = Inr () \<longrightarrow> state t' = Committed)" if "state t = Pending"
    using that assms(2) eq commit_deposition_sent [of c i w] commit_deposition_result [of c i w]
    by (auto split: if_splits)
  have n: "r = Inr () \<and> t' = t \<and> sent w' = sent w
          \<and> logged w' = logged w @
              [(Warning, ''Deposition %s is %s when committing.'',
                [Arg_json i, Arg_str (state_value (state t))])]" if "state t \<noteq> Pending"
    using that assms(2) eq by auto
  have again: "fst (commit c2 t' w') = Inr ()
          \<and> state (fst (snd (commit c2 t' w'))) = Committed
          \<and> sent (snd (snd (commit c2 t' w'))) = sent w'" if "state t = Pending" "r = Inr ()"
  proof -
    from that p have st: "state t' = Committed" by simp
    from assms have "deposition_json t' = deposition_json t"
      by (auto simp add: commit_def split: sum.splits prod.splits if_splits)
    with assms(1) have i': "deposition_id t' = Inr i" by (simp add: deposition_id_def)
    from st show ?thesis by (simp add: commit_eq [OF i'])
  qed
  from p n again show ?thesis by blast
qed

theorem C5_commit_witness:
  "state (fst (snd (commit (respond 202 None)
       \<lparr>deposition_json = JObj [(''id'', JNum 5)], state = Pending\<rparr> fresh_world))) = Committed
   \<and> sent (snd (snd (commit (respond 202 None)
       \<lparr>deposition_json = JObj [(''id'', JNum 5)], state = Pending\<rparr> fresh_world)))
      = [publish_request (JNum 5)]
   \<and> commit (respond 202 None)
        \<lparr>deposition_json = JObj [(''id'', JNum 5)], state = Aborted\<rparr> fresh_world
      = (Inr (), \<lparr>deposition_json = JObj [(''id'', JNum 5)], state = Aborted\<rparr>,
         \<lparr>sent = [], logged = [(Warning, ''Deposition %s is %s when committing.'',
                [Arg_json (JNum 5), Arg_str ''aborted''])]\<rparr>)"
proof -
  let ?p = "\<lparr>deposition_json = JObj [(''id'', JNum 5)], state = Pending\<rparr>"
  let ?a = "\<lparr>deposition_json = JObj [(''id'', JNum 5)], state = Aborted\<rparr>"
  have ip: "deposition_id ?p = Inr (JNum 5)" and ia: "deposition_id ?a = Inr (JNum 5)"
    by (simp_all add: deposition_id_def)
  have acc: "accepted (respond 202 None) fresh_world (publish_request (JNum 5))"
    by (simp add: accepted_def respond_def is_success_def)
  have fw: "sent fresh_world = []" "logged fresh_world = []"
    by (simp_all add: fresh_world_def)
  obtain r t' w' where ep: "commit (respond 202 None) ?p fresh_world = (r, t', w')"
    by (cases "commit (respond 202 None) ?p fresh_world") auto
  obtain r2 t2 w2 where ea: "commit (respond 202 None) ?a fresh_world = (r2, t2, w2)"
    by (cases "commit (respond 202 None) ?a fresh_world") auto
  have "w2 = \<lparr>sent = sent w2, logged = logged w2\<rparr>" by simp
  then show ?thesis
    using C5_commit [OF ip ep] C5_commit [OF ia ea] acc fw by (simp add: ep ea)
qed

subsection \<open>C6\<close>

text \<open>
  C6: for every deposition record the fetch returns (with its \<open>id\<close>, its boolean
  \<open>submitted\<close> and its \<open>state\<close>), \<open>continue_deposition\<close> raises a domain error, and so
  hands out no transaction, if \<open>submitted\<close> is true or \<open>state\<close> is \<open>done\<close> or \<open>error\<close>;
  otherwise it returns a new transaction in the Pending state wrapping that record.
\<close>

theorem C6_continue_deposition:
  assumes "get_deposition c i w = (Inr d, w1)"
    and "subscript d ''submitted'' = Inr (JBool b)"
    and "subscript d ''state'' = Inr st"
    and "subscript d ''id'' = Inr j"
  shows "(b \<or> st = JStr ''done'' \<or> st = JStr ''error'' \<longrightarrow>
            (\<exists>e. domain_error e \<and> continue_deposition c i w = (Inl e, w1)))
       \<and> (\<not> (b \<or> st = JStr ''done'' \<or> st = JStr ''error'') \<longrightarrow>
            continue_deposition c i w =
              (Inr \<lparr>deposition_json = d, state = Pending\<rparr>,
               log_call Info ''Continuing deposition %s'' [Arg_json j] w1))"
  using assms
  by (simp add: continue_deposition_def new_DepositionTransaction_def deposition_id_def)

theorem C6_continue_deposition_witness:
  "(\<exists>e. domain_error e
      \<and> fst (continue_deposition
          (respond 200 (Some (JObj [(''id'', JNum 6), (''submitted'', JBool True),
                                    (''state'', JStr ''done'')])))
          (JNum 6) fresh_world) = Inl e)
   \<and> fst (continue_deposition
          (respond 200 (Some (JObj [(''id'', JNum 6), (''submitted'', JBool False),
                                    (''state'', JStr ''unsubmitted'')])))
          (JNum 6) fresh_world)
     = Inr \<lparr>deposition_json = JObj [(''id'', JNum 6), (''submitted'', JBool False),
                                    (''state'', JStr ''unsubmitted'')],
            state = Pending\<rparr>"
proof -
  let ?d1 = "JObj [(''id'', JNum 6), (''submitted'', JBool True), (''state'', JStr ''done'')]"
  let ?d2 = "JObj [(''id'', JNum 6), (''submitted'', JBool False),
                   (''state'', JStr ''unsubmitted'')]"
  let ?w1 = "fresh_world\<lparr>sent := sent fresh_world @
      [\<lparr>rq_method = ''GET'', rq_endpoint = Deposition_Item (JNum 6), rq_content = No_Content,
        rq_headers = []\<rparr>]\<rparr>"
  have g1: "get_deposition (respond 200 (Some ?d1)) (JNum 6) fresh_world = (Inr ?d1, ?w1)"
    by (simp add: get_deposition_def client_request_def respond_def raise_for_status_def
        is_success_def response_json_def)
  have g2: "get_deposition (respond 200 (Some ?d2)) (JNum 6) fresh_world = (Inr ?d2, ?w1)"
    by (simp add: get_deposition_def client_request_def respond_def raise_for_status_def
        is_success_def response_json_def)
  have a1: "subscript ?d1 ''submitted'' = Inr (JBool True)"
    and a2: "subscript ?d1 ''state'' = Inr (JStr ''done'')"
    and a3: "subscript ?d1 ''id'' = Inr (JNum 6)"
    and b1: "subscript ?d2 ''submitted'' = Inr (JBool False)"
    and b2: "subscript ?d2 ''state'' = Inr (JStr ''unsubmitted'')"
    and b3: "subscript ?d2 ''id'' = Inr (JNum 6)"
    by simp_all
  from C6_continue_deposition [OF g1 a1 a2 a3] C6_continue_deposition [OF g2 b1 b2 b3]
  show ?thesis by auto
qed

subsection \<open>C7\<close>

text \<open>
  C7, as the code has it: in the JSON body of the create request a field is omitted
  exactly when its value is \<open>None\<close>, whether the caller set it or left it unset; every
  other field is written, set or not, empty or not. So each person has \<open>name\<close> and those of
  \<open>affiliation\<close> and \<open>orcid\<close> that are not \<open>None\<close>, and the metadata has its seven
  required fields, \<open>doi\<close> unless it is \<open>None\<close>, and always \<open>prereserve_doi\<close>.
\<close>

theorem C7_exclude_none:
  "keys (dump_Person p) =
     [''name''] @ (if affiliation p = None then [] else [''affiliation''])
              @ (if orcid p = None then [] else [''orcid''])
   \<and> keys (dump_DepositionMetadata m) =
     [''upload_type'', ''title'', ''description'', ''creators'', ''access_right'', ''license'',
      ''version'']
     @ (if doi m = None then [] else [''doi'']) @ [''prereserve_doi'']
   \<and> keys (model_dump_json \<lparr>metadata = m\<rparr>) = [''metadata'']
   \<and> sent (snd (start_new_deposition c m w)) = sent w @ [create_request m]"
proof -
  have p: "keys (dump_Person p) =
     [''name''] @ (if affiliation p = None then [] else [''affiliation''])
              @ (if orcid p = None then [] else [''orcid''])"
    by (simp add: dump_Person_def exclude_none_def opt_str_def split: option.split)
  have m: "keys (dump_DepositionMetadata m) =
     [''upload_type'', ''title'', ''description'', ''creators'', ''access_right'', ''license'',
      ''version'']
     @ (if doi m = None then [] else [''doi'']) @ [''prereserve_doi'']"
    by (simp add: dump_DepositionMetadata_def exclude_none_def opt_str_def split: option.split)
  have d: "keys (model_dump_json \<lparr>metadata = m\<rparr>) = [''metadata'']"
    by (simp add: model_dump_json_def exclude_none_def dump_DepositionMetadata_def)
  have s: "sent (snd (start_new_deposition c m w)) = sent w @ [create_request m]"
    by (simp add: start_new_deposition_def client_request_def create_request_def Let_def
        AList.update_def log_call_def split: sum.split prod.split)
  from p m d s show ?thesis by simp
qed

theorem C7_exclude_none_witness:
  "keys (dump_Person (new_Person ''A'' None (Some ''0000-0002-3761-3201''))) = [''name'', ''orcid'']
   \<and> keys (dump_DepositionMetadata
     (new_DepositionMetadata ''software'' ''T'' [] [] ''open'' ''MIT'' ''1'' (Some None) None))
   = [''upload_type'', ''title'', ''description'', ''creators'', ''access_right'', ''license'',
      ''version'', ''prereserve_doi'']"
  using C7_exclude_none [of "new_Person ''A'' None (Some ''0000-0002-3761-3201'')"
      "new_DepositionMetadata ''software'' ''T'' [] [] ''open'' ''MIT'' ''1'' (Some None) None"]
  by (simp add: new_DepositionMetadata_def new_Person_def)

text \<open>
  The claim as it was stated fails both ways: \<open>affiliation\<close>, set to \<open>None\<close> by the
  caller, is among the fields set and is left out; \<open>prereserve_doi\<close>, left unset, is not
  among the fields set and is written.
\<close>

theorem C7_counterexample:
  "''affiliation'' \<in> set (person_fields_set (new_Person ''A'' None None))
   \<and> ''affiliation'' \<notin> set (keys (dump_Person (new_Person ''A'' None None)))
   \<and> ''prereserve_doi'' \<notin> set (metadata_fields_set
        (new_DepositionMetadata ''software'' ''T'' ''D'' [] ''open'' ''MIT'' ''1'' None None))
   \<and> ''prereserve_doi'' \<in> set (keys (dump_DepositionMetadata
        (new_DepositionMetadata ''software'' ''T'' ''D'' [] ''open'' ''MIT'' ''1'' None None)))"
  by (simp add: new_Person_def new_DepositionMetadata_def dump_Person_def
      dump_DepositionMetadata_def exclude_none_def opt_str_def)

subsection \<open>C8\<close>

text \<open>
  C8: for every transaction whose record has a \<open>metadata\<close> dict,
  \<open>reserved_deposition_doi\<close> returns \<open>None\<close> when that dict has no \<open>prereserve_doi\<close>
  entry, and returns the nested \<open>doi\<close> string when the entry is there.
\<close>

theorem C8_reserved_deposition_doi:
  assumes "subscript (deposition_json t) ''metadata'' = Inr (JObj m)"
  shows "(map_of m ''prereserve_doi'' = None \<longrightarrow> reserved_deposition_doi t = Inr JNull)
       \<and> (map_of m ''prereserve_doi'' = Some (JObj p) \<and> map_of p ''doi'' = Some (JStr s) \<longrightarrow>
            reserved_deposition_doi t = Inr (JStr s))"
  using assms by (simp add: reserved_deposition_doi_def)

theorem C8_reserved_deposition_doi_witness:
  "reserved_deposition_doi
     \<lparr>deposition_json = JObj [(''metadata'',
         JObj [(''prereserve_doi'', JObj [(''doi'', JStr ''10.5281/zenodo.123'')])])],
      state = Pending\<rparr> = Inr (JStr ''10.5281/zenodo.123'')
   \<and> reserved_deposition_doi
     \<lparr>deposition_json = JObj [(''metadata'', JObj [])], state = Pending\<rparr> = Inr JNull"
proof -
  let ?t1 = "\<lparr>deposition_json = JObj [(''metadata'',
         JObj [(''prereserve_doi'', JObj [(''doi'', JStr ''10.5281/zenodo.123'')])])],
      state = Pending\<rparr>"
  let ?t2 = "\<lparr>deposition_json = JObj [(''metadata'', JObj [])], state = Pending\<rparr>"
  have m1: "subscript (deposition_json ?t1) ''metadata''
      = Inr (JObj [(''prereserve_doi'', JObj [(''doi'', JStr ''10.5281/zenodo.123'')])])"
    by simp
  have m2: "subscript (deposition_json ?t2) ''metadata'' = Inr (JObj [])"
    by simp
  show ?thesis
    using C8_reserved_deposition_doi [OF m1, of "[(''doi'', JStr ''10.5281/zenodo.123'')]"
        "''10.5281/zenodo.123''"]
      C8_reserved_deposition_doi [OF m2]
    by simp
qed

subsection \<open>C9\<close>



subsection \<open>C10\<close>

text \<open>
  C10: for every transaction in the Pending state, if \<open>commit()\<close> or \<open>abort()\<close> raises,
  the transaction is unchanged and still Pending; in particular an error raised by
  \<open>Client.commit_deposition\<close> or \<open>Client.abort_deposition\<close> passes through with the
  transaction as it was.
\<close>

theorem C10_failed_remote_call:
  assumes "state t = Pending"
  shows "(commit c t w = (Inl e, t', w') \<longrightarrow> t' = t \<and> state t' = Pending)
       \<and> (abort c t w = (Inl e, t', w') \<longrightarrow> t' = t \<and> state t' = Pending)
       \<and> (deposition_id t = Inr i \<and> commit_deposition c i w = (Inl e, w') \<longrightarrow>
            commit c t w = (Inl e, t, w'))
       \<and> (deposition_id t = Inr i \<and> abort_deposition c i w = (Inl e, w') \<longrightarrow>
            abort c t w = (Inl e, t, w'))"
proof -
  have "commit c t w = (Inl e, t, w')"
    if "deposition_id t = Inr i" "commit_deposition c i w = (Inl e, w')"
    using that assms by (simp add: commit_def pending_def)
  moreover have "abort c t w = (Inl e, t, w')"
    if "deposition_id t = Inr i" "abort_deposition c i w = (Inl e, w')"
    using that assms by (simp add: abort_pending abort_tail_def)
  ultimately show ?thesis
    using assms commit_raises_unchanged [of c t w e t' w'] abort_raises_unchanged [of c t w e t' w']
    by auto
qed

theorem C10_failed_remote_call_witness:
  "fst (commit (respond 500 None)
      \<lparr>deposition_json = JObj [(''id'', JNum 10)], state = Pending\<rparr> fresh_world)
     = Inl (HTTPStatusError 500)
   \<and> fst (snd (commit (respond 500 None)
      \<lparr>deposition_json = JObj [(''id'', JNum 10)], state = Pending\<rparr> fresh_world))
     = \<lparr>deposition_json = JObj [(''id'', JNum 10)], state = Pending\<rparr>
   \<and> fst (abort (respond 500 None)
      \<lparr>deposition_json = JObj [(''id'', JNum 10)], state = Pending\<rparr> fresh_world)
     = Inl (HTTPStatusError 500)
   \<and> fst (snd (abort (respond 500 None)
      \<lparr>deposition_json = JObj [(''id'', JNum 10)], state = Pending\<rparr> fresh_world))
     = \<lparr>deposition_json = JObj [(''id'', JNum 10)], state = Pending\<rparr>"
proof -
  let ?t = "\<lparr>deposition_json = JObj [(''id'', JNum 10)], state = Pending\<rparr>"
  let ?wc = "fresh_world\<lparr>sent := sent fresh_world @ [publish_request (JNum 10)]\<rparr>"
  let ?wa = "fresh_world\<lparr>sent := sent fresh_world @ [delete_request (JNum 10)]\<rparr>"
  have s: "state ?t = Pending" by simp
  have i: "deposition_id ?t = Inr (JNum 10)" by (simp add: deposition_id_def)
  have cd: "commit_deposition (respond 500 None) (JNum 10) fresh_world
              = (Inl (HTTPStatusError 500), ?wc)"
    by (simp add: commit_deposition_eq respond_def is_success_def)
  have ad: "abort_deposition (respond 500 None) (JNum 10) fresh_world
              = (Inl (HTTPStatusError 500), ?wa)"
    by (simp add: abort_deposition_eq respond_def is_success_def)
  show ?thesis
    using C10_failed_remote_call [OF s, of "respond 500 None" fresh_world "HTTPStatusError 500"
        ?t ?wc "JNum 10"] cd i
      C10_failed_remote_call [OF s, of "respond 500 None" fresh_world "HTTPStatusError 500"
        ?t ?wa "JNum 10"] ad
    by simp
qed

end
